theory Spec2Isabelle
  imports Main "HOL-Library.Multiset"
begin

section \<open>The lunnel server: connection dispatch, vhost dispatch, management query\<close>

text \<open>
  A shallow embedding of \<^verbatim>\<open>src/server/server.go\<close>. Every handler of the source runs
  on one accepted connection and talks to the outside world only through calls whose
  results it branches on. The embedding makes both sides explicit: the results of the
  outside calls are read from an environment record, and the calls the handler makes are
  returned, in program order, as a list of events.
\<close>

subsection \<open>Configuration (the fields of \<^verbatim>\<open>serverConf\<close> that server.go reads)\<close>

record TlsConf =
  TlsCert :: string
  TlsKey :: string

record AesConf =
  SecretKey :: string

record Config =
  ListenIP :: string
  ListenPort :: int
  HttpPort :: int
  HttpsPort :: int
  ManagePort :: int
  Tls :: TlsConf
  Aes :: AesConf
  MaxIdlePipes :: string
  MaxStreams :: string
  LogFile :: string
  AuthEnable :: bool
  NotifyEnable :: bool

subsection \<open>Handshake messages\<close>

text \<open>
  \<^verbatim>\<open>msg.ReadMsg\<close> returns a message type and a body of dynamic type. The source names
  four message types; \<open>TypeOther\<close> stands for any further type of package msg.
\<close>

datatype MsgType =
  TypeClientHello | TypeServerHello | TypePipeClientHello | TypeError | TypeOther nat

record ClientHello =
  EncryptMode :: string
  EnableCompress :: bool
  Version :: string

record PipeClientHello =
  ClientID :: string

datatype Body =
    BodyNil
  | BodyClientHello ClientHello
  | BodyPipeClientHello PipeClientHello
  | BodyError string
  | BodyOther

subsection \<open>Streams and events\<close>

text \<open>
  A stream is the accepted connection or a transform layered on a stream, so the term
  itself records the order in which the layers were applied.
\<close>

datatype Stream =
    RawConn
  | TlsServer Stream string string
  | CryptoStream Stream string
  | CompStream Stream
  | MuxStream Stream
  | SniffedConn Stream
  | HostRewritten Stream string

datatype LogLevel = LDebug | LInfo | LWarning | LError

datatype Deadline = NoDeadline | NowPlusSeconds nat

datatype Event =
    EvWriteMsg Stream MsgType Body
  | EvClose Stream
  | EvLog LogLevel string
  | EvLoadX509KeyPair string string
  | EvTlsServer Stream string string
  | EvNewCryptoStream Stream string
  | EvNewCompStream Stream
  | EvSmuxServer Stream nat
  | EvSessClose Stream
  | EvAcceptStream Stream
  | EvNewControl Stream string bool string
  | EvServerHandShake Stream
  | EvCtlServe Stream
  | EvPipeHandShake Stream PipeClientHello
  | EvSetDeadline Stream Deadline
  | EvTunnelLookup string
  | EvGetHttpsHostname Stream
  | EvGetHttpRequestInfo Stream
  | EvHttpHostNameRewrite Stream string
  | EvWrite Stream string
  | EvProxyConn Stream nat string
  | EvPanic

subsection \<open>The environment: results of the calls a handler makes\<close>

text \<open>
  \<open>ReadMsg\<close> is the result of \<^verbatim>\<open>msg.ReadMsg(conn)\<close> (\<open>None\<close>: it returned an error);
  \<open>WriteMsgOk t\<close> says whether \<^verbatim>\<open>msg.WriteMsg\<close> of a message of type \<open>t\<close> returns no
  error (a run writes each type at most once); \<open>LoadX509KeyPairOk cert key\<close> whether
  \<^verbatim>\<open>tls.LoadX509KeyPair\<close> loads the pair; \<open>NewCryptoStreamOk key\<close> whether
  \<^verbatim>\<open>crypto.NewCryptoStream\<close> accepts the key; the remaining fields are the results of
  \<^verbatim>\<open>smux.Server\<close>, \<^verbatim>\<open>sess.AcceptStream\<close>, \<^verbatim>\<open>ctl.ServerHandShake\<close>, \<^verbatim>\<open>PipeHandShake\<close>,
  the two vhost sniffers (\<open>None\<close>: error or timeout, otherwise the info map) and
  \<^verbatim>\<open>vhost.HttpHostNameRewrite\<close>, and the text \<^verbatim>\<open>vhost.BadGateWayResp()\<close> returns.
\<close>

record Env =
  ReadMsg :: "(MsgType \<times> Body) option"
  WriteMsgOk :: "MsgType \<Rightarrow> bool"
  LoadX509KeyPairOk :: "string \<Rightarrow> string \<Rightarrow> bool"
  NewCryptoStreamOk :: "string \<Rightarrow> bool"
  SmuxServerOk :: bool
  AcceptStreamOk :: bool
  ServerHandShakeOk :: bool
  PipeHandShakeOk :: bool
  GetHttpsHostname :: "(string \<rightharpoonup> string) option"
  GetHttpRequestInfo :: "(string \<rightharpoonup> string) option"
  HttpHostNameRewriteOk :: bool
  BadGateWayResp :: string

subsection \<open>newTlsConfig, handleControl, handlePipe\<close>

text \<open>\<open>newTlsConfig\<close> returns its events and whether its error is nil.\<close>

definition newTlsConfig :: "Config \<Rightarrow> Env \<Rightarrow> Event list \<times> bool" where
  "newTlsConfig conf env =
     (if LoadX509KeyPairOk env (TlsCert (Tls conf)) (TlsKey (Tls conf))
      then ([EvLoadX509KeyPair (TlsCert (Tls conf)) (TlsKey (Tls conf))], True)
      else ([EvLoadX509KeyPair (TlsCert (Tls conf)) (TlsKey (Tls conf)),
             EvLog LError ''load LoadX509KeyPair failed!''], False))"

definition handleControl :: "Env \<Rightarrow> Stream \<Rightarrow> ClientHello \<Rightarrow> Event list" where
  "handleControl env conn cch =
     [EvNewControl conn (EncryptMode cch) (EnableCompress cch) (Version cch),
      EvServerHandShake conn] @
     (if \<not> ServerHandShakeOk env
      then [EvClose conn, EvLog LError ''ctl.ServerHandShake failed!'']
      else [EvLog LInfo ''client handshake success!'', EvCtlServe conn])"

definition handlePipe :: "Env \<Rightarrow> Stream \<Rightarrow> PipeClientHello \<Rightarrow> Event list" where
  "handlePipe env conn phs =
     EvPipeHandShake conn phs #
     (if \<not> PipeHandShakeOk env
      then [EvClose conn, EvLog LWarning ''pipe handshake failed!'']
      else [])"

subsection \<open>handleConn\<close>

text \<open>
  The body of the ClientHello branch is modelled in three parts, each followed by the
  rest of the function. Lines 201-219 first: compression, the multiplexed session with
  its deferred close, the control stream; \<open>enc\<close> is the stream the encryption layer
  produced.
\<close>

definition upgradeConn :: "Env \<Rightarrow> ClientHello \<Rightarrow> Stream \<Rightarrow> Event list" where
  "upgradeConn env clientHello enc =
     (let underlyingConn = (if EnableCompress clientHello then CompStream enc else enc)
      in (if EnableCompress clientHello then [EvNewCompStream enc] else []) @
         EvSmuxServer underlyingConn 419430 #
         (if \<not> SmuxServerOk env
          then [EvClose underlyingConn, EvLog LWarning ''upgrade to smux.Server failed!'']
          else
            EvAcceptStream underlyingConn #
            (if \<not> AcceptStreamOk env
             then [EvLog LWarning ''accept stream failed!'']
             else EvLog LDebug ''new client hello'' #
                  handleControl env (MuxStream underlyingConn) clientHello)
            @ [EvSessClose underlyingConn]))"

text \<open>Lines 177-200: the encryption layer, then lines 201-219 on the stream it built.\<close>

definition encryptConn :: "Config \<Rightarrow> Env \<Rightarrow> ClientHello \<Rightarrow> Event list" where
  "encryptConn conf env clientHello =
     (if EncryptMode clientHello = ''tls'' then
        (case newTlsConfig conf env of
           (evs, ok) \<Rightarrow>
             if \<not> ok then evs @ [EvClose RawConn]
             else evs @
                  EvTlsServer RawConn (TlsCert (Tls conf)) (TlsKey (Tls conf)) #
                  upgradeConn env clientHello
                    (TlsServer RawConn (TlsCert (Tls conf)) (TlsKey (Tls conf))))
      else if EncryptMode clientHello = ''aes'' then
        EvNewCryptoStream RawConn (SecretKey (Aes conf)) #
        (if \<not> NewCryptoStreamOk env (SecretKey (Aes conf))
         then [EvClose RawConn, EvLog LError ''client hello,crypto.NewCryptoConn failed!'']
         else upgradeConn env clientHello (CryptoStream RawConn (SecretKey (Aes conf))))
      else if EncryptMode clientHello = ''none'' then
        upgradeConn env clientHello RawConn
      else
        [EvWriteMsg RawConn TypeError (BodyError ''invalid encryption mode''),
         EvClose RawConn, EvLog LError ''client hello failed!''])"

text \<open>
  Lines 158-176: the reply to the ClientHello. A failed write closes the connection and
  returns; after a successful write, of either message, the function goes on with line
  177.
\<close>

definition handleClientHello :: "Config \<Rightarrow> Env \<Rightarrow> ClientHello \<Rightarrow> Event list" where
  "handleClientHello conf env clientHello =
     (if EncryptMode clientHello = ''tls'' \<and>
         (TlsCert (Tls conf) = [] \<or> TlsKey (Tls conf) = [])
      then
        EvWriteMsg RawConn TypeError (BodyError ''server not support tls mode'') #
        (if \<not> WriteMsgOk env TypeError then [EvClose RawConn]
         else encryptConn conf env clientHello)
      else if EncryptMode clientHello = ''aes'' \<and> SecretKey (Aes conf) = []
      then
        EvWriteMsg RawConn TypeError (BodyError ''server not support aes mode'') #
        (if \<not> WriteMsgOk env TypeError then [EvClose RawConn]
         else encryptConn conf env clientHello)
      else
        EvWriteMsg RawConn TypeServerHello BodyNil #
        (if \<not> WriteMsgOk env TypeServerHello then [EvClose RawConn]
         else encryptConn conf env clientHello))"

text \<open>
  The whole of \<^verbatim>\<open>handleConn\<close>. A type assertion \<^verbatim>\<open>body.(*msg.ClientHello)\<close> on a body of
  another dynamic type panics.
\<close>

definition handleConn :: "Config \<Rightarrow> Env \<Rightarrow> Event list" where
  "handleConn conf env =
     (case ReadMsg env of
        None \<Rightarrow> [EvClose RawConn, EvLog LWarning ''read handshake msg failed!'']
      | Some (mType, body) \<Rightarrow>
          if mType = TypeClientHello then
            (case body of
               BodyClientHello clientHello \<Rightarrow> handleClientHello conf env clientHello
             | _ \<Rightarrow> [EvPanic])
          else if mType = TypePipeClientHello then
            (case body of
               BodyPipeClientHello phs \<Rightarrow> handlePipe env RawConn phs
             | _ \<Rightarrow> [EvPanic])
          else [EvLog LError ''read handshake msg invalid type!''])"

subsection \<open>fmt.Sprintf\<close>

text \<open>
  The fragment of \<^verbatim>\<open>fmt.Sprintf\<close> that server.go uses: literal text, \<^verbatim>\<open>%s\<close> with a string
  operand and \<^verbatim>\<open>%d\<close> with an integer operand, no flags, width or precision. Outside it
  the function follows fmt's error markers (\<^verbatim>\<open>%!v(MISSING)\<close>, \<^verbatim>\<open>%!v(type=value)\<close>,
  \<^verbatim>\<open>%!(NOVERB)\<close>, \<^verbatim>\<open>%!(EXTRA ...)\<close>).
\<close>

datatype Arg = ArgS string | ArgD int

fun digitsOf :: "nat \<Rightarrow> string" where
  "digitsOf n =
     (if n < 10 then [''0123456789'' ! n]
      else digitsOf (n div 10) @ [''0123456789'' ! (n mod 10)])"

declare digitsOf.simps [simp del]

definition fmtInt :: "int \<Rightarrow> string" where
  "fmtInt i = (if i < 0 then CHR ''-'' # digitsOf (nat (- i)) else digitsOf (nat i))"

definition typedValue :: "Arg \<Rightarrow> string" where
  "typedValue a = (case a of ArgS s \<Rightarrow> ''string='' @ s | ArgD i \<Rightarrow> ''int='' @ fmtInt i)"

fun extraArgs :: "Arg list \<Rightarrow> string" where
  "extraArgs [] = []"
| "extraArgs [a] = typedValue a"
| "extraArgs (a # b # rest) = typedValue a @ '', '' @ extraArgs (b # rest)"

definition fmtVerb :: "char \<Rightarrow> Arg \<Rightarrow> string" where
  "fmtVerb v a =
     (case a of
        ArgS s \<Rightarrow> if v = CHR ''s'' then s else ''%!'' @ [v] @ ''('' @ typedValue a @ '')''
      | ArgD i \<Rightarrow> if v = CHR ''d'' then fmtInt i else ''%!'' @ [v] @ ''('' @ typedValue a @ '')'')"

fun Sprintf :: "string \<Rightarrow> Arg list \<Rightarrow> string" where
  "Sprintf [] args = (if args = [] then [] else ''%!(EXTRA '' @ extraArgs args @ '')'')"
| "Sprintf [c] args =
     (if c = CHR ''%'' then ''%!(NOVERB)'' else [c]) @ Sprintf [] args"
| "Sprintf (c # v # fmt) args =
     (if c = CHR ''%'' then
        (if v = CHR ''%'' then CHR ''%'' # Sprintf fmt args
         else (case args of
                 [] \<Rightarrow> ''%!'' @ [v] @ ''(MISSING)'' @ Sprintf fmt []
               | a # rest \<Rightarrow> fmtVerb v a @ Sprintf fmt rest))
      else c # Sprintf (v # fmt) args)"

subsection \<open>The tunnel registry\<close>

text \<open>
  The fields of a registry entry that server.go reads. \<open>PublicAddr\<close> holds the text
  the method \<^verbatim>\<open>tunnelConfig.PublicAddr()\<close> returns; \<open>ctl\<close> identifies the owning control
  session.
\<close>

record TunnelConfig =
  PublicAddr :: string
  HttpHostRewrite :: string

record Tunnel =
  tunnelConfig :: TunnelConfig
  ctl :: nat
  name :: string

type_synonym TunnelMap = "string \<rightharpoonup> Tunnel"

subsection \<open>handleHttpsConn and handleHttpConn\<close>

text \<open>Indexing a Go map with a missing key gives the zero value.\<close>

definition hostOf :: "(string \<rightharpoonup> string) \<Rightarrow> string" where
  "hostOf info = (case info ''Host'' of None \<Rightarrow> [] | Some h \<Rightarrow> h)"

text \<open>The deferred \<^verbatim>\<open>conn.Close()\<close> runs last on every path.\<close>

definition handleHttpsConn :: "Config \<Rightarrow> Env \<Rightarrow> TunnelMap \<Rightarrow> Event list" where
  "handleHttpsConn conf env TunnelMap =
     EvSetDeadline RawConn (NowPlusSeconds 20) # EvGetHttpsHostname RawConn #
     (case GetHttpsHostname env of
        None \<Rightarrow> [EvLog LDebug ''vhost.GetHttpRequestInfo failed!'']
      | Some info \<Rightarrow>
          (let key = Sprintf ''https://%s:%d'' [ArgS (hostOf info), ArgD (HttpsPort conf)];
               sconn = SniffedConn RawConn;
               tlsConn = TlsServer sconn (TlsCert (Tls conf)) (TlsKey (Tls conf))
           in EvTunnelLookup key #
              (case newTlsConfig conf env of
                 (evs, ok) \<Rightarrow>
                   if \<not> ok then evs @ [EvLog LError ''server error cert'']
                   else
                     evs @ EvTlsServer sconn (TlsCert (Tls conf)) (TlsKey (Tls conf)) #
                     (case TunnelMap key of
                        Some tunnel \<Rightarrow>
                          [EvSetDeadline RawConn NoDeadline,
                           EvProxyConn tlsConn (ctl tunnel) (name tunnel)]
                      | None \<Rightarrow> [EvWrite tlsConn (BadGateWayResp env)]))))
     @ [EvClose RawConn]"

definition handleHttpConn :: "Config \<Rightarrow> Env \<Rightarrow> TunnelMap \<Rightarrow> Event list" where
  "handleHttpConn conf env TunnelMap =
     EvSetDeadline RawConn (NowPlusSeconds 20) # EvGetHttpRequestInfo RawConn #
     (case GetHttpRequestInfo env of
        None \<Rightarrow> [EvLog LDebug ''vhost.GetHttpRequestInfo failed!'']
      | Some info \<Rightarrow>
          (let key = Sprintf ''http://%s:%d'' [ArgS (hostOf info), ArgD (HttpPort conf)];
               sconn = SniffedConn RawConn
           in EvTunnelLookup key #
              (case TunnelMap key of
                 Some tunnel \<Rightarrow>
                   (if HttpHostRewrite (tunnelConfig tunnel) \<noteq> [] then
                      EvHttpHostNameRewrite sconn (HttpHostRewrite (tunnelConfig tunnel)) #
                      (if \<not> HttpHostNameRewriteOk env
                       then [EvLog LError ''vhost.HttpHostNameRewrite failed!'']
                       else [EvSetDeadline RawConn NoDeadline,
                             EvProxyConn
                               (HostRewritten sconn (HttpHostRewrite (tunnelConfig tunnel)))
                               (ctl tunnel) (name tunnel)])
                    else [EvSetDeadline RawConn NoDeadline,
                          EvProxyConn sconn (ctl tunnel) (name tunnel)])
               | None \<Rightarrow> [EvWrite sconn (BadGateWayResp env)])))
     @ [EvClose RawConn]"

subsection \<open>tunnelQuery\<close>

record tunnelStateReq =
  RemoteAddr :: string

record tunnelStateResp =
  Tunnels :: "string list"

text \<open>
  The response writer of net/http: the first \<^verbatim>\<open>WriteHeader\<close> fixes the status code and a
  later call changes nothing; a write before any \<^verbatim>\<open>WriteHeader\<close> sends status 200 first.
\<close>

record ResponseWriter =
  statusCode :: "nat option"
  header :: "string \<rightharpoonup> string list"
  written :: string

definition newResponseWriter :: ResponseWriter where
  "newResponseWriter = \<lparr>statusCode = None, header = Map.empty, written = []\<rparr>"

definition WriteHeader :: "nat \<Rightarrow> ResponseWriter \<Rightarrow> ResponseWriter" where
  "WriteHeader code w =
     (case statusCode w of None \<Rightarrow> w\<lparr>statusCode := Some code\<rparr> | Some c \<Rightarrow> w)"

definition Write_body :: "string \<Rightarrow> ResponseWriter \<Rightarrow> ResponseWriter" where
  "Write_body b w = (let w' = WriteHeader 200 w in w'\<lparr>written := written w' @ b\<rparr>)"

text \<open>
  The query's environment: the result of \<^verbatim>\<open>ioutil.ReadAll(r.Body)\<close> (\<open>None\<close>: an
  error), \<^verbatim>\<open>json.Unmarshal\<close> into a \<open>tunnelStateReq\<close> and \<^verbatim>\<open>json.Marshal\<close> of a
  \<open>tunnelStateResp\<close> (\<open>None\<close>: an error), and the order in which the runtime's
  \<^verbatim>\<open>range\<close> visits the keys of the registry.
\<close>

record QueryEnv =
  ReadAll :: "string option"
  jsonUnmarshal :: "string \<Rightarrow> tunnelStateReq option"
  jsonMarshal :: "tunnelStateResp \<Rightarrow> string option"
  rangeOrder :: "string list"

text \<open>Lines 111-125: the value handed to \<^verbatim>\<open>json.Marshal\<close>.\<close>

definition collectTunnels :: "QueryEnv \<Rightarrow> TunnelMap \<Rightarrow> tunnelStateReq \<Rightarrow> tunnelStateResp" where
  "collectTunnels env TunnelMap query =
     (if RemoteAddr query \<noteq> [] then
        (case TunnelMap (RemoteAddr query) of
           Some tunnel \<Rightarrow> \<lparr>Tunnels = [] @ [PublicAddr (tunnelConfig tunnel)]\<rparr>
         | None \<Rightarrow> \<lparr>Tunnels = []\<rparr>)
      else
        \<lparr>Tunnels = map (\<lambda>v. PublicAddr (tunnelConfig v))
                       (List.map_filter TunnelMap (rangeOrder env))\<rparr>)"

text \<open>The handler returns the response writer and the registry as it leaves it.\<close>

definition tunnelQuery :: "QueryEnv \<Rightarrow> TunnelMap \<Rightarrow> ResponseWriter \<Rightarrow> ResponseWriter \<times> TunnelMap" where
  "tunnelQuery env TunnelMap w =
     (case ReadAll env of
        None \<Rightarrow> (Write_body ''req body is empty'' (WriteHeader 400 w), TunnelMap)
      | Some content \<Rightarrow>
          (case jsonUnmarshal env content of
             None \<Rightarrow> (Write_body ''unmarshal req body failed'' (WriteHeader 400 w), TunnelMap)
           | Some query \<Rightarrow>
               (let tunnelStats = collectTunnels env TunnelMap query;
                    w1 = w\<lparr>header := (header w)(''Content-Type'' \<mapsto> [''application/json''])\<rparr>;
                    w2 = WriteHeader 200 w1
                in case jsonMarshal env tunnelStats of
                     None \<Rightarrow>
                       (Write_body ''marshal resp body failed'' (WriteHeader 500 w2), TunnelMap)
                   | Some retBody \<Rightarrow> (Write_body retBody w2, TunnelMap))))"

subsection \<open>Main\<close>

text \<open>
  \<^verbatim>\<open>strconv.ParseUint(s, 10, 64)\<close>: a non-empty string of decimal digits whose value is
  below \<open>2^64\<close>; no sign, no underscore.
\<close>

definition isDigit :: "char \<Rightarrow> bool" where
  "isDigit c = (48 \<le> (of_char c :: nat) \<and> (of_char c :: nat) \<le> 57)"

fun parseDigits :: "nat \<Rightarrow> string \<Rightarrow> nat option" where
  "parseDigits acc [] = Some acc"
| "parseDigits acc (c # cs) =
     (if isDigit c then parseDigits (acc * 10 + (of_char c - 48)) cs else None)"

definition ParseUint :: "string \<Rightarrow> nat option" where
  "ParseUint s =
     (if s = [] then None
      else (case parseDigits 0 s of
              None \<Rightarrow> None
            | Some n \<Rightarrow> if n < 2 ^ 64 then Some n else None))"

text \<open>
  The startup environment: the result of \<^verbatim>\<open>LoadConfig\<close> (\<open>None\<close>: an error, otherwise
  the configuration it stored in \<^verbatim>\<open>serverConf\<close>) and whether \<^verbatim>\<open>os.OpenFile\<close> opens the
  log file.
\<close>

record MainEnv =
  LoadConfig :: "Config option"
  OpenFileOk :: "string \<Rightarrow> bool"

datatype Task =
  ServeHttp string | ServeHttps string | ListenAndServe string | ServeManage

text \<open>
  A run of \<^verbatim>\<open>Main\<close> ends in a fatal error with its message, or it starts its five tasks
  with the two parsed limits and blocks.
\<close>

datatype Startup = Fatal string | Serving nat nat "Task list"

text \<open>
  Modelled from the spec: \<^verbatim>\<open>log.Fatalln\<close> belongs to the repository's logging package,
  which is not in the sources. By section 7 of the specification a configuration-time
  fatal error aborts startup, so the call ends the run.
\<close>

definition Fatalln :: "string \<Rightarrow> Startup" where
  "Fatalln m = Fatal m"

text \<open>\<^verbatim>\<open>rawLog.Fatalf\<close> is the standard library's: it prints the message and exits.\<close>

definition Fatalf :: "string \<Rightarrow> Startup" where
  "Fatalf m = Fatal m"

text \<open>
  Lines 40-80. The calls between the log file and the two limits (logging, crash
  reporting, authentication and notification set-up) return nothing that \<^verbatim>\<open>Main\<close>
  branches on.
\<close>

definition Main_server :: "MainEnv \<Rightarrow> Startup" where
  "Main_server env =
     (case LoadConfig env of
        None \<Rightarrow> Fatalf ''load config failed!''
      | Some serverConf \<Rightarrow>
          if LogFile serverConf \<noteq> [] \<and> \<not> OpenFileOk env (LogFile serverConf)
          then Fatalf ''open log file failed!''
          else
            (case ParseUint (MaxIdlePipes serverConf) of
               None \<Rightarrow> Fatalln ''max_idle_pipes must be unsigned integer''
             | Some maxIdlePipes \<Rightarrow>
                 (case ParseUint (MaxStreams serverConf) of
                    None \<Rightarrow> Fatalln ''max_idle_pipes must be unsigned integer''
                  | Some maxStreams \<Rightarrow>
                      Serving maxIdlePipes maxStreams
                        [ServeHttp (Sprintf ''%s:%d''
                           [ArgS (ListenIP serverConf), ArgD (HttpPort serverConf)]),
                         ServeHttps (Sprintf ''%s:%d''
                           [ArgS (ListenIP serverConf), ArgD (HttpsPort serverConf)]),
                         ListenAndServe ''kcp'',
                         ListenAndServe ''tcp'',
                         ServeManage])))"

subsection \<open>Vocabulary of the properties\<close>

text \<open>
  The claims' notion of a supported mode: \<open>none\<close> always, \<open>tls\<close> with a configured
  certificate and key, \<open>aes\<close> with a configured secret.
\<close>

definition supportedMode :: "Config \<Rightarrow> ClientHello \<Rightarrow> bool" where
  "supportedMode conf ch =
     (EncryptMode ch = ''none'' \<or>
      (EncryptMode ch = ''tls'' \<and> TlsCert (Tls conf) \<noteq> [] \<and> TlsKey (Tls conf) \<noteq> []) \<or>
      (EncryptMode ch = ''aes'' \<and> SecretKey (Aes conf) \<noteq> []))"

text \<open>
  The secured stream as the specification describes it: the encryption layer chosen by
  the mode, then compression when the client asked for it.
\<close>

definition encryptLayer :: "Config \<Rightarrow> ClientHello \<Rightarrow> Stream" where
  "encryptLayer conf ch =
     (if EncryptMode ch = ''tls'' then TlsServer RawConn (TlsCert (Tls conf)) (TlsKey (Tls conf))
      else if EncryptMode ch = ''aes'' then CryptoStream RawConn (SecretKey (Aes conf))
      else RawConn)"

definition securedStream :: "Config \<Rightarrow> ClientHello \<Rightarrow> Stream" where
  "securedStream conf ch =
     (if EnableCompress ch then CompStream (encryptLayer conf ch) else encryptLayer conf ch)"

definition encryptEvents :: "Config \<Rightarrow> ClientHello \<Rightarrow> Event list" where
  "encryptEvents conf ch =
     (if EncryptMode ch = ''tls''
      then [EvLoadX509KeyPair (TlsCert (Tls conf)) (TlsKey (Tls conf)),
            EvTlsServer RawConn (TlsCert (Tls conf)) (TlsKey (Tls conf))]
      else if EncryptMode ch = ''aes'' then [EvNewCryptoStream RawConn (SecretKey (Aes conf))]
      else [])"

definition compressEvents :: "Config \<Rightarrow> ClientHello \<Rightarrow> Event list" where
  "compressEvents conf ch =
     (if EnableCompress ch then [EvNewCompStream (encryptLayer conf ch)] else [])"

definition isAcceptStream :: "Event \<Rightarrow> bool" where
  "isAcceptStream e = (case e of EvAcceptStream s \<Rightarrow> True | _ \<Rightarrow> False)"

definition isSmuxServer :: "Event \<Rightarrow> bool" where
  "isSmuxServer e = (case e of EvSmuxServer s n \<Rightarrow> True | _ \<Rightarrow> False)"

definition isServerHello :: "Event \<Rightarrow> bool" where
  "isServerHello e = (case e of EvWriteMsg s t b \<Rightarrow> t = TypeServerHello | _ \<Rightarrow> False)"



definition isWrite :: "Event \<Rightarrow> bool" where
  "isWrite e = (case e of EvWrite s b \<Rightarrow> True | _ \<Rightarrow> False)"

definition isProxyConn :: "Event \<Rightarrow> bool" where
  "isProxyConn e = (case e of EvProxyConn s c n \<Rightarrow> True | _ \<Rightarrow> False)"

definition isFatal :: "Startup \<Rightarrow> bool" where
  "isFatal r = (case r of Fatal m \<Rightarrow> True | Serving a b ts \<Rightarrow> False)"

subsection \<open>Concrete configurations, environments and registries\<close>

definition exampleConf :: Config where
  "exampleConf =
     \<lparr>ListenIP = ''0.0.0.0'', ListenPort = 8080, HttpPort = 80, HttpsPort = 443,
      ManagePort = 8081,
      Tls = \<lparr>TlsCert = ''cert.pem'', TlsKey = ''key.pem''\<rparr>,
      Aes = \<lparr>SecretKey = ''secret''\<rparr>,
      MaxIdlePipes = ''4'', MaxStreams = ''6'', LogFile = [],
      AuthEnable = False, NotifyEnable = False\<rparr>"

text \<open>The same server with neither a certificate nor a secret configured.\<close>

definition bareConf :: Config where
  "bareConf = exampleConf\<lparr>Tls := \<lparr>TlsCert = [], TlsKey = []\<rparr>, Aes := \<lparr>SecretKey = []\<rparr>\<rparr>"

text \<open>
  An environment in which every call succeeds, except that a key pair cannot be loaded
  from an empty path; \<open>rd\<close> is the first handshake message.
\<close>

definition okEnv :: "(MsgType \<times> Body) option \<Rightarrow> Env" where
  "okEnv rd =
     \<lparr>ReadMsg = rd,
      WriteMsgOk = (\<lambda>t. True),
      LoadX509KeyPairOk = (\<lambda>c k. c \<noteq> [] \<and> k \<noteq> []),
      NewCryptoStreamOk = (\<lambda>k. True),
      SmuxServerOk = True, AcceptStreamOk = True,
      ServerHandShakeOk = True, PipeHandShakeOk = True,
      GetHttpsHostname = Some [''Host'' \<mapsto> ''a.example.com''],
      GetHttpRequestInfo = Some [''Host'' \<mapsto> ''a.example.com''],
      HttpHostNameRewriteOk = True,
      BadGateWayResp = ''HTTP/1.1 502 Bad Gateway''\<rparr>"

definition hello :: "string \<Rightarrow> bool \<Rightarrow> (MsgType \<times> Body) option" where
  "hello mode cmp =
     Some (TypeClientHello,
           BodyClientHello \<lparr>EncryptMode = mode, EnableCompress = cmp, Version = ''1''\<rparr>)"

definition tunnelA :: Tunnel where
  "tunnelA =
     \<lparr>tunnelConfig = \<lparr>PublicAddr = ''http://a.example.com:80'', HttpHostRewrite = ''local.a''\<rparr>,
      ctl = 1, name = ''web''\<rparr>"

definition tunnelB :: Tunnel where
  "tunnelB =
     \<lparr>tunnelConfig = \<lparr>PublicAddr = ''https://a.example.com:443'', HttpHostRewrite = []\<rparr>,
      ctl = 2, name = ''secure''\<rparr>"

definition exampleTunnels :: TunnelMap where
  "exampleTunnels =
     [''http://a.example.com:80'' \<mapsto> tunnelA, ''https://a.example.com:443'' \<mapsto> tunnelB]"

text \<open>
  A query environment: the body is readable, it parses to the query \<open>q\<close>, serialization
  succeeds when \<open>ok\<close>, and the runtime visits the two keys of \<open>exampleTunnels\<close>.
\<close>

definition exampleQuery :: "string \<Rightarrow> bool \<Rightarrow> QueryEnv" where
  "exampleQuery addr ok =
     \<lparr>ReadAll = Some ''{}'',
      jsonUnmarshal = (\<lambda>c. Some \<lparr>RemoteAddr = addr\<rparr>),
      jsonMarshal = (\<lambda>r. if ok then Some (concat (Tunnels r)) else None),
      rangeOrder = [''https://a.example.com:443'', ''http://a.example.com:80'']\<rparr>"

definition exampleMain :: "string \<Rightarrow> string \<Rightarrow> MainEnv" where
  "exampleMain pipes streams =
     \<lparr>LoadConfig = Some (exampleConf\<lparr>MaxIdlePipes := pipes, MaxStreams := streams\<rparr>),
      OpenFileOk = (\<lambda>f. True)\<rparr>"

text \<open>Connections whose sniffed host has no tunnel in \<open>exampleTunnels\<close>.\<close>

definition strayEnv :: Env where
  "strayEnv =
     (okEnv None)\<lparr>GetHttpsHostname := Some [''Host'' \<mapsto> ''b.example.com''],
                  GetHttpRequestInfo := Some [''Host'' \<mapsto> ''b.example.com'']\<rparr>"

section \<open>Properties\<close>

lemmas handleConn_defs = handleConn_def handleClientHello_def encryptConn_def
  upgradeConn_def handleControl_def handlePipe_def newTlsConfig_def Let_def

lemmas example_defs = okEnv_def bareConf_def exampleConf_def hello_def

subsection \<open>The reply to a ClientHello\<close>

text \<open>
  What \<^verbatim>\<open>handleConn\<close> does for an unsupported mode when the layer it then tries to build
  cannot be built: the connection is closed and no session is opened. For \<open>tls\<close> and
  \<open>aes\<close> the Error message is the first thing written; for any other mode it follows a
  ServerHello.
\<close>

lemma handleConn_ClientHello:
  "ReadMsg env = Some (TypeClientHello, BodyClientHello ch) \<Longrightarrow>
   handleConn conf env = handleClientHello conf env ch"
  by (simp add: handleConn_def)

lemma encryptConn_tls_fails:
  assumes "EncryptMode ch = ''tls''"
      and "\<not> LoadX509KeyPairOk env (TlsCert (Tls conf)) (TlsKey (Tls conf))"
  shows "encryptConn conf env ch =
           [EvLoadX509KeyPair (TlsCert (Tls conf)) (TlsKey (Tls conf)),
            EvLog LError ''load LoadX509KeyPair failed!'', EvClose RawConn]"
  using assms by (simp add: encryptConn_def newTlsConfig_def)

lemma encryptConn_aes_fails:
  assumes "EncryptMode ch = ''aes''"
      and "\<not> NewCryptoStreamOk env (SecretKey (Aes conf))"
  shows "encryptConn conf env ch =
           [EvNewCryptoStream RawConn (SecretKey (Aes conf)), EvClose RawConn,
            EvLog LError ''client hello,crypto.NewCryptoConn failed!'']"
  using assms by (simp add: encryptConn_def)

lemma encryptConn_unknown_mode:
  assumes "EncryptMode ch \<noteq> ''tls''" and "EncryptMode ch \<noteq> ''aes''"
      and "EncryptMode ch \<noteq> ''none''"
  shows "encryptConn conf env ch =
           [EvWriteMsg RawConn TypeError (BodyError ''invalid encryption mode''),
            EvClose RawConn, EvLog LError ''client hello failed!'']"
  using assms by (simp add: encryptConn_def)

lemma unsupported_mode_closed:
  assumes rd: "ReadMsg env = Some (TypeClientHello, BodyClientHello ch)"
      and unsup: "\<not> supportedMode conf ch"
      and load: "\<not> LoadX509KeyPairOk env (TlsCert (Tls conf)) (TlsKey (Tls conf))"
      and cipher: "\<not> NewCryptoStreamOk env (SecretKey (Aes conf))"
  shows "EvClose RawConn \<in> set (handleConn conf env) \<and>
         \<not> list_ex isSmuxServer (handleConn conf env)"
proof -
  consider (tls) "EncryptMode ch = ''tls''"
    | (aes) "EncryptMode ch = ''aes''"
    | (other) "EncryptMode ch \<noteq> ''tls''" "EncryptMode ch \<noteq> ''aes''"
    by blast
  then show ?thesis
  proof cases
    case tls
    with unsup have missing: "TlsCert (Tls conf) = [] \<or> TlsKey (Tls conf) = []"
      by (simp add: supportedMode_def)
    have "handleClientHello conf env ch =
            EvWriteMsg RawConn TypeError (BodyError ''server not support tls mode'') #
            (if \<not> WriteMsgOk env TypeError then [EvClose RawConn]
             else encryptConn conf env ch)"
      using tls missing by (simp add: handleClientHello_def)
    then show ?thesis
      by (simp add: handleConn_ClientHello [OF rd] encryptConn_tls_fails [OF tls load]
          isSmuxServer_def)
  next
    case aes
    with unsup have missing: "SecretKey (Aes conf) = []"
      by (simp add: supportedMode_def)
    have "handleClientHello conf env ch =
            EvWriteMsg RawConn TypeError (BodyError ''server not support aes mode'') #
            (if \<not> WriteMsgOk env TypeError then [EvClose RawConn]
             else encryptConn conf env ch)"
      using aes missing by (simp add: handleClientHello_def)
    then show ?thesis
      by (simp add: handleConn_ClientHello [OF rd] encryptConn_aes_fails [OF aes cipher]
          isSmuxServer_def)
  next
    case other
    with unsup have none: "EncryptMode ch \<noteq> ''none''"
      by (simp add: supportedMode_def)
    have "handleClientHello conf env ch =
            EvWriteMsg RawConn TypeServerHello BodyNil #
            (if \<not> WriteMsgOk env TypeServerHello then [EvClose RawConn]
             else encryptConn conf env ch)"
      using other by (simp add: handleClientHello_def)
    then show ?thesis
      by (simp add: handleConn_ClientHello [OF rd]
          encryptConn_unknown_mode [OF other none] isSmuxServer_def)
  qed
qed

lemma aes_without_secret_falls_through:
  "handleConn bareConf (okEnv (hello ''aes'' False)) =
     [EvWriteMsg RawConn TypeError (BodyError ''server not support aes mode''),
      EvNewCryptoStream RawConn [],
      EvSmuxServer (CryptoStream RawConn []) 419430,
      EvAcceptStream (CryptoStream RawConn []),
      EvLog LDebug ''new client hello'',
      EvNewControl (MuxStream (CryptoStream RawConn [])) ''aes'' False ''1'',
      EvServerHandShake (MuxStream (CryptoStream RawConn [])),
      EvLog LInfo ''client handshake success!'',
      EvCtlServe (MuxStream (CryptoStream RawConn [])),
      EvSessClose (CryptoStream RawConn [])]"
  by (simp add: handleConn_defs example_defs)

lemma tls_without_certificate_closed:
  "handleConn bareConf (okEnv (hello ''tls'' False)) =
     [EvWriteMsg RawConn TypeError (BodyError ''server not support tls mode''),
      EvLoadX509KeyPair [] [],
      EvLog LError ''load LoadX509KeyPair failed!'',
      EvClose RawConn]"
  by (simp add: handleConn_defs example_defs)

text \<open>
  When the ServerHello that answers an unknown mode cannot be written, the run ends with
  the close of lines 172-175.
\<close>

lemma unknown_mode_failed_write:
  "handleConn bareConf
     ((okEnv (hello ''foo'' False))\<lparr>WriteMsgOk := (\<lambda>t. t \<noteq> TypeServerHello)\<rparr>) =
     [EvWriteMsg RawConn TypeServerHello BodyNil, EvClose RawConn]"
  by (simp add: handleConn_defs example_defs)



text \<open>
  For a supported mode the ServerHello is the first event of the run, it is written to
  the raw connection, and it is the only ServerHello.
\<close>

lemma supported_mode_server_hello_first:
  assumes rd: "ReadMsg env = Some (TypeClientHello, BodyClientHello ch)"
      and sup: "supportedMode conf ch"
  shows "\<exists>rest. handleConn conf env = EvWriteMsg RawConn TypeServerHello BodyNil # rest \<and>
                \<not> list_ex isServerHello rest"
proof -
  from sup consider (none) "EncryptMode ch = ''none''"
    | (tls) "EncryptMode ch = ''tls''" "TlsCert (Tls conf) \<noteq> []" "TlsKey (Tls conf) \<noteq> []"
    | (aes) "EncryptMode ch = ''aes''" "SecretKey (Aes conf) \<noteq> []"
    unfolding supportedMode_def by blast
  then show ?thesis
  proof cases
    case none
    with rd show ?thesis
      by (simp add: handleConn_defs isServerHello_def)
  next
    case tls
    with rd show ?thesis
      by (simp add: handleConn_defs isServerHello_def)
  next
    case aes
    with rd show ?thesis
      by (simp add: handleConn_defs isServerHello_def)
  qed
qed
text \<open>
  C2. A ServerHello is sent only for a supported mode. The code sends one for the
  unknown mode \<open>foo\<close> as well, before it rejects the mode with an Error message.
\<close>

theorem unknown_mode_gets_server_hello:
  "handleConn bareConf (okEnv (hello ''foo'' False)) =
     [EvWriteMsg RawConn TypeServerHello BodyNil,
      EvWriteMsg RawConn TypeError (BodyError ''invalid encryption mode''),
      EvClose RawConn,
      EvLog LError ''client hello failed!'']"
  by (simp add: handleConn_defs example_defs)

subsection \<open>The secured stream and the control stream\<close>

text \<open>
  C3. After a ServerHello has been written for a supported mode, and when each later
  step succeeds, the run is: the encryption layer of the mode (none for \<open>none\<close>, a TLS
  server for \<open>tls\<close>, the pre-shared-key stream for \<open>aes\<close>), then compression if and
  only if the client enabled it, then a server session over that stream with a receive
  buffer of 419430 bytes, one accepted stream, and the hand-over of that stream to
  \<open>handleControl\<close>; the session is closed when \<open>handleControl\<close> returns.
\<close>

theorem secured_session_established:
  assumes "ReadMsg env = Some (TypeClientHello, BodyClientHello ch)"
      and "supportedMode conf ch"
      and "WriteMsgOk env TypeServerHello"
      and "EncryptMode ch = ''tls'' \<longrightarrow>
             LoadX509KeyPairOk env (TlsCert (Tls conf)) (TlsKey (Tls conf))"
      and "EncryptMode ch = ''aes'' \<longrightarrow> NewCryptoStreamOk env (SecretKey (Aes conf))"
      and "SmuxServerOk env"
      and "AcceptStreamOk env"
  shows "handleConn conf env =
           EvWriteMsg RawConn TypeServerHello BodyNil #
           encryptEvents conf ch @ compressEvents conf ch @
           [EvSmuxServer (securedStream conf ch) 419430,
            EvAcceptStream (securedStream conf ch),
            EvLog LDebug ''new client hello''] @
           handleControl env (MuxStream (securedStream conf ch)) ch @
           [EvSessClose (securedStream conf ch)] \<and>
         length (filter isAcceptStream (handleConn conf env)) = 1"
proof -
  have run: "handleConn conf env =
           EvWriteMsg RawConn TypeServerHello BodyNil #
           encryptEvents conf ch @ compressEvents conf ch @
           [EvSmuxServer (securedStream conf ch) 419430,
            EvAcceptStream (securedStream conf ch),
            EvLog LDebug ''new client hello''] @
           handleControl env (MuxStream (securedStream conf ch)) ch @
           [EvSessClose (securedStream conf ch)]"
    using assms
    by (auto simp: handleConn_def handleClientHello_def encryptConn_def
        upgradeConn_def newTlsConfig_def supportedMode_def encryptLayer_def securedStream_def
        Let_def
        encryptEvents_def compressEvents_def)
  have once: "length (filter isAcceptStream (handleConn conf env)) = 1"
    unfolding run
    by (simp add: isAcceptStream_def encryptEvents_def compressEvents_def handleControl_def)
  show ?thesis
    by (rule conjI [OF run once])
qed

theorem secured_session_established_witness:
  "supportedMode exampleConf \<lparr>EncryptMode = ''tls'', EnableCompress = True, Version = ''1''\<rparr> \<and>
   handleConn exampleConf (okEnv (hello ''tls'' True)) =
     [EvWriteMsg RawConn TypeServerHello BodyNil,
      EvLoadX509KeyPair ''cert.pem'' ''key.pem'',
      EvTlsServer RawConn ''cert.pem'' ''key.pem'',
      EvNewCompStream (TlsServer RawConn ''cert.pem'' ''key.pem''),
      EvSmuxServer (CompStream (TlsServer RawConn ''cert.pem'' ''key.pem'')) 419430,
      EvAcceptStream (CompStream (TlsServer RawConn ''cert.pem'' ''key.pem'')),
      EvLog LDebug ''new client hello'',
      EvNewControl (MuxStream (CompStream (TlsServer RawConn ''cert.pem'' ''key.pem'')))
        ''tls'' True ''1'',
      EvServerHandShake (MuxStream (CompStream (TlsServer RawConn ''cert.pem'' ''key.pem''))),
      EvLog LInfo ''client handshake success!'',
      EvCtlServe (MuxStream (CompStream (TlsServer RawConn ''cert.pem'' ''key.pem''))),
      EvSessClose (CompStream (TlsServer RawConn ''cert.pem'' ''key.pem''))] \<and>
   length (filter isAcceptStream (handleConn exampleConf (okEnv (hello ''tls'' True)))) = 1"
proof -
  let ?env = "okEnv (hello ''tls'' True)"
  let ?ch = "\<lparr>EncryptMode = ''tls'', EnableCompress = True, Version = ''1''\<rparr>"
  have rd: "ReadMsg ?env = Some (TypeClientHello, BodyClientHello ?ch)"
    by (simp add: example_defs)
  have sup: "supportedMode exampleConf ?ch"
    by (simp add: supportedMode_def exampleConf_def)
  have wr: "WriteMsgOk ?env TypeServerHello"
    by (simp add: okEnv_def)
  have tls: "EncryptMode ?ch = ''tls'' \<longrightarrow>
      LoadX509KeyPairOk ?env (TlsCert (Tls exampleConf)) (TlsKey (Tls exampleConf))"
    by (simp add: example_defs)
  have aes: "EncryptMode ?ch = ''aes'' \<longrightarrow> NewCryptoStreamOk ?env (SecretKey (Aes exampleConf))"
    by simp
  have smux: "SmuxServerOk ?env" and acc: "AcceptStreamOk ?env"
    by (simp_all add: okEnv_def)
  have conf: "TlsCert (Tls exampleConf) = ''cert.pem''" "TlsKey (Tls exampleConf) = ''key.pem''"
    by (simp_all add: exampleConf_def)
  have hs: "ServerHandShakeOk ?env"
    by (simp add: okEnv_def)
  note t = secured_session_established [OF rd sup wr tls aes smux acc]
  have run: "handleConn exampleConf ?env =
     [EvWriteMsg RawConn TypeServerHello BodyNil,
      EvLoadX509KeyPair ''cert.pem'' ''key.pem'',
      EvTlsServer RawConn ''cert.pem'' ''key.pem'',
      EvNewCompStream (TlsServer RawConn ''cert.pem'' ''key.pem''),
      EvSmuxServer (CompStream (TlsServer RawConn ''cert.pem'' ''key.pem'')) 419430,
      EvAcceptStream (CompStream (TlsServer RawConn ''cert.pem'' ''key.pem'')),
      EvLog LDebug ''new client hello'',
      EvNewControl (MuxStream (CompStream (TlsServer RawConn ''cert.pem'' ''key.pem'')))
        ''tls'' True ''1'',
      EvServerHandShake (MuxStream (CompStream (TlsServer RawConn ''cert.pem'' ''key.pem''))),
      EvLog LInfo ''client handshake success!'',
      EvCtlServe (MuxStream (CompStream (TlsServer RawConn ''cert.pem'' ''key.pem''))),
      EvSessClose (CompStream (TlsServer RawConn ''cert.pem'' ''key.pem''))]"
    unfolding t [THEN conjunct1]
    by (simp add: encryptEvents_def compressEvents_def securedStream_def encryptLayer_def
        handleControl_def conf hs)
  show ?thesis
    by (intro conjI) (rule sup, rule run, rule t [THEN conjunct2])
qed

text \<open>
  On every run of the ClientHello branch, whatever fails: a session is opened over no
  stream but the secured stream of the request, always with a receive buffer of 419430
  bytes, and at most one stream is accepted.
\<close>

lemma isSmuxServer_simps:
  "isSmuxServer (EvSmuxServer s n)"
  "\<not> isSmuxServer (EvWriteMsg s t b)"
  "\<not> isSmuxServer (EvClose s)"
  "\<not> isSmuxServer (EvLog l m)"
  "\<not> isSmuxServer (EvLoadX509KeyPair c k)"
  "\<not> isSmuxServer (EvTlsServer s c k)"
  "\<not> isSmuxServer (EvNewCryptoStream s k)"
  by (simp_all add: isSmuxServer_def)

lemma isAcceptStream_simps:
  "isAcceptStream (EvAcceptStream s)"
  "\<not> isAcceptStream (EvWriteMsg s t b)"
  "\<not> isAcceptStream (EvClose s)"
  "\<not> isAcceptStream (EvLog l m)"
  "\<not> isAcceptStream (EvLoadX509KeyPair c k)"
  "\<not> isAcceptStream (EvTlsServer s c k)"
  "\<not> isAcceptStream (EvNewCryptoStream s k)"
  by (simp_all add: isAcceptStream_def)

lemma upgradeConn_sessions:
  assumes "u = (if EnableCompress ch then CompStream enc else enc)"
  shows "list_all (\<lambda>e. isSmuxServer e \<longrightarrow> e = EvSmuxServer u 419430)
           (upgradeConn env ch enc) \<and>
         length (filter isAcceptStream (upgradeConn env ch enc)) \<le> 1"
  unfolding assms
  by (simp add: upgradeConn_def handleControl_def isSmuxServer_def isAcceptStream_def Let_def)

lemma encryptConn_sessions:
  "list_all (\<lambda>e. isSmuxServer e \<longrightarrow> e = EvSmuxServer (securedStream conf ch) 419430)
     (encryptConn conf env ch) \<and>
   length (filter isAcceptStream (encryptConn conf env ch)) \<le> 1"
proof -
  consider (tls) "EncryptMode ch = ''tls''"
    | (aes) "EncryptMode ch = ''aes''"
    | (none) "EncryptMode ch = ''none''"
    | (other) "EncryptMode ch \<noteq> ''tls''" "EncryptMode ch \<noteq> ''aes''" "EncryptMode ch \<noteq> ''none''"
    by blast
  then show ?thesis
  proof cases
    case tls
    then have "securedStream conf ch =
        (if EnableCompress ch
         then CompStream (TlsServer RawConn (TlsCert (Tls conf)) (TlsKey (Tls conf)))
         else TlsServer RawConn (TlsCert (Tls conf)) (TlsKey (Tls conf)))"
      by (simp add: securedStream_def encryptLayer_def)
    from upgradeConn_sessions [OF this, of env] tls show ?thesis
      by (simp add: encryptConn_def newTlsConfig_def isSmuxServer_simps isAcceptStream_simps)
  next
    case aes
    then have "securedStream conf ch =
        (if EnableCompress ch then CompStream (CryptoStream RawConn (SecretKey (Aes conf)))
         else CryptoStream RawConn (SecretKey (Aes conf)))"
      by (simp add: securedStream_def encryptLayer_def)
    from upgradeConn_sessions [OF this, of env] aes show ?thesis
      by (simp add: encryptConn_def isSmuxServer_simps isAcceptStream_simps)
  next
    case none
    then have "securedStream conf ch = (if EnableCompress ch then CompStream RawConn else RawConn)"
      by (simp add: securedStream_def encryptLayer_def)
    from upgradeConn_sessions [OF this, of env] none show ?thesis
      by (simp add: encryptConn_def)
  next
    case other
    then show ?thesis
      by (simp add: encryptConn_unknown_mode isSmuxServer_simps isAcceptStream_simps)
  qed
qed

lemma handleConn_sessions:
  assumes "ReadMsg env = Some (TypeClientHello, BodyClientHello ch)"
  shows "list_all (\<lambda>e. isSmuxServer e \<longrightarrow> e = EvSmuxServer (securedStream conf ch) 419430)
           (handleConn conf env) \<and>
         length (filter isAcceptStream (handleConn conf env)) \<le> 1"
  using encryptConn_sessions [of conf ch env]
  by (simp add: handleConn_ClientHello [OF assms] handleClientHello_def
      isSmuxServer_simps isAcceptStream_simps)

subsection \<open>Other first messages\<close>

text \<open>
  Any first message that is neither a ClientHello nor a PipeClientHello is logged, and
  that is all the handler does.
\<close>

lemma other_message_only_logged:
  assumes "ReadMsg env = Some (mType, body)"
      and "mType \<noteq> TypeClientHello" and "mType \<noteq> TypePipeClientHello"
  shows "handleConn conf env = [EvLog LError ''read handshake msg invalid type!'']"
  using assms by (simp add: handleConn_def)

text \<open>
  C4. A connection whose first message is neither a ClientHello nor a PipeClientHello
  is logged and closed before the handler returns. The code logs it and returns without
  closing the connection: on a first message of type ServerHello the run has no
  \<open>EvClose\<close> event.
\<close>

theorem other_message_not_closed:
  "handleConn exampleConf (okEnv (Some (TypeServerHello, BodyNil))) =
     [EvLog LError ''read handshake msg invalid type!'']"
  by (simp add: handleConn_defs example_defs)

subsection \<open>The management query\<close>

lemma map_filter_dom:
  "set ks \<subseteq> dom m \<Longrightarrow> List.map_filter m ks = map (\<lambda>k. the (m k)) ks"
  by (induction ks) (auto simp: List.map_filter_simps)

lemma collectTunnels_all:
  assumes "RemoteAddr query = []"
      and "distinct (rangeOrder env)" and "set (rangeOrder env) = dom TunnelMap"
  shows "mset (Tunnels (collectTunnels env TunnelMap query)) =
           image_mset (\<lambda>k. PublicAddr (tunnelConfig (the (TunnelMap k))))
             (mset_set (dom TunnelMap))"
proof -
  have "Tunnels (collectTunnels env TunnelMap query) =
          map (\<lambda>k. PublicAddr (tunnelConfig (the (TunnelMap k)))) (rangeOrder env)"
    using assms by (simp add: collectTunnels_def map_filter_dom comp_def)
  moreover have "mset (rangeOrder env) = mset_set (dom TunnelMap)"
    using assms by (metis mset_set_set)
  ultimately show ?thesis
    by (simp only: mset_map)
qed

lemma collectTunnels_one:
  assumes "RemoteAddr query \<noteq> []"
  shows "Tunnels (collectTunnels env TunnelMap query) =
           (case TunnelMap (RemoteAddr query) of
              None \<Rightarrow> []
            | Some tunnel \<Rightarrow> [PublicAddr (tunnelConfig tunnel)])"
  using assms by (simp add: collectTunnels_def split: option.split)

lemma tunnelQuery_ok:
  assumes "ReadAll env = Some content"
      and "jsonUnmarshal env content = Some query"
      and "jsonMarshal env (collectTunnels env TunnelMap query) = Some retBody"
  shows "tunnelQuery env TunnelMap newResponseWriter =
           (\<lparr>statusCode = Some 200,
             header = [''Content-Type'' \<mapsto> [''application/json'']],
             written = retBody\<rparr>, TunnelMap)"
  using assms
  by (simp add: tunnelQuery_def newResponseWriter_def WriteHeader_def Write_body_def Let_def)

text \<open>
  C5. For a query whose body parses: with an empty RemoteAddr the list handed to the
  serializer holds the public address of every tunnel of the registry, one per key; with
  a non-empty RemoteAddr it holds the public address of the entry under that key when
  there is one and is empty otherwise; and when the serializer succeeds its output is
  the body of a response with status 200. (The runtime's \<^verbatim>\<open>range\<close> visits every key of
  the map once.)
\<close>

theorem tunnelQuery_lists_tunnels:
  assumes "ReadAll env = Some content"
      and "jsonUnmarshal env content = Some query"
      and "distinct (rangeOrder env)"
      and "set (rangeOrder env) = dom TunnelMap"
  shows "(RemoteAddr query = [] \<longrightarrow>
            mset (Tunnels (collectTunnels env TunnelMap query)) =
              image_mset (\<lambda>k. PublicAddr (tunnelConfig (the (TunnelMap k))))
                (mset_set (dom TunnelMap))) \<and>
         (RemoteAddr query \<noteq> [] \<longrightarrow>
            Tunnels (collectTunnels env TunnelMap query) =
              (case TunnelMap (RemoteAddr query) of
                 None \<Rightarrow> []
               | Some tunnel \<Rightarrow> [PublicAddr (tunnelConfig tunnel)])) \<and>
         (\<forall>retBody. jsonMarshal env (collectTunnels env TunnelMap query) = Some retBody \<longrightarrow>
            tunnelQuery env TunnelMap newResponseWriter =
              (\<lparr>statusCode = Some 200,
                header = [''Content-Type'' \<mapsto> [''application/json'']],
                written = retBody\<rparr>, TunnelMap))"
  using assms collectTunnels_all collectTunnels_one tunnelQuery_ok by blast

theorem tunnelQuery_lists_tunnels_witness:
  "tunnelQuery (exampleQuery [] True) exampleTunnels newResponseWriter =
     (\<lparr>statusCode = Some 200,
       header = [''Content-Type'' \<mapsto> [''application/json'']],
       written = ''https://a.example.com:443http://a.example.com:80''\<rparr>, exampleTunnels) \<and>
   Tunnels (collectTunnels (exampleQuery ''http://a.example.com:80'' True) exampleTunnels
              \<lparr>RemoteAddr = ''http://a.example.com:80''\<rparr>) = [''http://a.example.com:80''] \<and>
   Tunnels (collectTunnels (exampleQuery ''http://b.example.com:80'' True) exampleTunnels
              \<lparr>RemoteAddr = ''http://b.example.com:80''\<rparr>) = []"
proof -
  have rd: "ReadAll (exampleQuery a True) = Some ''{}''" for a
    by (simp add: exampleQuery_def)
  have parse: "jsonUnmarshal (exampleQuery a True) ''{}'' = Some \<lparr>RemoteAddr = a\<rparr>" for a
    by (simp add: exampleQuery_def)
  have dist: "distinct (rangeOrder (exampleQuery a True))" for a
    by (simp add: exampleQuery_def)
  have visit: "set (rangeOrder (exampleQuery a True)) = dom exampleTunnels" for a
    by (auto simp: exampleQuery_def exampleTunnels_def)
  note t = tunnelQuery_lists_tunnels [OF rd parse dist visit]
  have ser: "jsonMarshal (exampleQuery [] True)
               (collectTunnels (exampleQuery [] True) exampleTunnels \<lparr>RemoteAddr = []\<rparr>) =
             Some ''https://a.example.com:443http://a.example.com:80''"
    by (simp add: exampleQuery_def collectTunnels_def exampleTunnels_def
        List.map_filter_simps tunnelA_def tunnelB_def)
  have all: "tunnelQuery (exampleQuery [] True) exampleTunnels newResponseWriter =
     (\<lparr>statusCode = Some 200,
       header = [''Content-Type'' \<mapsto> [''application/json'']],
       written = ''https://a.example.com:443http://a.example.com:80''\<rparr>, exampleTunnels)"
    using t [of "[]"] ser by blast
  have one: "Tunnels (collectTunnels (exampleQuery ''http://a.example.com:80'' True)
               exampleTunnels \<lparr>RemoteAddr = ''http://a.example.com:80''\<rparr>) =
             [''http://a.example.com:80'']"
    using t [of "''http://a.example.com:80''"]
    by (simp add: exampleTunnels_def tunnelA_def)
  have none: "Tunnels (collectTunnels (exampleQuery ''http://b.example.com:80'' True)
               exampleTunnels \<lparr>RemoteAddr = ''http://b.example.com:80''\<rparr>) = []"
    using t [of "''http://b.example.com:80''"]
    by (simp add: exampleTunnels_def)
  show ?thesis
    by (intro conjI) (rule all, rule one, rule none)
qed



text \<open>
  The branch of lines 130-134, taken when \<^verbatim>\<open>json.Marshal\<close> returns an error: the status
  200 of line 128 is already set, so the \<^verbatim>\<open>WriteHeader(500)\<close> of line 131 does not
  change it.
\<close>

lemma tunnelQuery_marshal_failure:
  assumes "ReadAll env = Some content"
      and "jsonUnmarshal env content = Some query"
      and "jsonMarshal env (collectTunnels env TunnelMap query) = None"
  shows "tunnelQuery env TunnelMap newResponseWriter =
           (\<lparr>statusCode = Some 200,
             header = [''Content-Type'' \<mapsto> [''application/json'']],
             written = ''marshal resp body failed''\<rparr>, TunnelMap)"
  using assms
  by (simp add: tunnelQuery_def newResponseWriter_def WriteHeader_def Write_body_def Let_def)



subsection \<open>vhost dispatch\<close>

lemma Sprintf_https_key:
  "Sprintf ''https://%s:%d'' [ArgS h, ArgD p] = ''https'' @ ''://'' @ h @ '':'' @ fmtInt p"
  by (simp add: fmtVerb_def)

lemma Sprintf_http_key:
  "Sprintf ''http://%s:%d'' [ArgS h, ArgD p] = ''http'' @ ''://'' @ h @ '':'' @ fmtInt p"
  by (simp add: fmtVerb_def)

lemma fmtInt_80: "fmtInt 80 = ''80''"
  by (simp add: fmtInt_def digitsOf.simps)

lemma fmtInt_443: "fmtInt 443 = ''443''"
  by (simp add: fmtInt_def digitsOf.simps)

text \<open>The runs of the two handlers, path by path.\<close>

lemma handleHttpsConn_sniff_failed:
  assumes "GetHttpsHostname env = None"
  shows "handleHttpsConn conf env TunnelMap =
           [EvSetDeadline RawConn (NowPlusSeconds 20), EvGetHttpsHostname RawConn,
            EvLog LDebug ''vhost.GetHttpRequestInfo failed!'', EvClose RawConn]"
  using assms by (simp add: handleHttpsConn_def)

lemma handleHttpsConn_cert_failed:
  assumes "GetHttpsHostname env = Some info"
      and "\<not> LoadX509KeyPairOk env (TlsCert (Tls conf)) (TlsKey (Tls conf))"
  shows "handleHttpsConn conf env TunnelMap =
           [EvSetDeadline RawConn (NowPlusSeconds 20), EvGetHttpsHostname RawConn,
            EvTunnelLookup (''https://'' @ hostOf info @ '':'' @ fmtInt (HttpsPort conf)),
            EvLoadX509KeyPair (TlsCert (Tls conf)) (TlsKey (Tls conf)),
            EvLog LError ''load LoadX509KeyPair failed!'',
            EvLog LError ''server error cert'',
            EvClose RawConn]"
  using assms by (simp add: handleHttpsConn_def newTlsConfig_def fmtVerb_def Let_def)

lemma handleHttpsConn_unmatched:
  assumes "GetHttpsHostname env = Some info"
      and "LoadX509KeyPairOk env (TlsCert (Tls conf)) (TlsKey (Tls conf))"
      and "TunnelMap (''https://'' @ hostOf info @ '':'' @ fmtInt (HttpsPort conf)) = None"
  shows "handleHttpsConn conf env TunnelMap =
           [EvSetDeadline RawConn (NowPlusSeconds 20), EvGetHttpsHostname RawConn,
            EvTunnelLookup (''https://'' @ hostOf info @ '':'' @ fmtInt (HttpsPort conf)),
            EvLoadX509KeyPair (TlsCert (Tls conf)) (TlsKey (Tls conf)),
            EvTlsServer (SniffedConn RawConn) (TlsCert (Tls conf)) (TlsKey (Tls conf)),
            EvWrite (TlsServer (SniffedConn RawConn) (TlsCert (Tls conf)) (TlsKey (Tls conf)))
              (BadGateWayResp env),
            EvClose RawConn]"
  using assms by (simp add: handleHttpsConn_def newTlsConfig_def fmtVerb_def Let_def)

lemma handleHttpsConn_matched:
  assumes "GetHttpsHostname env = Some info"
      and "LoadX509KeyPairOk env (TlsCert (Tls conf)) (TlsKey (Tls conf))"
      and "TunnelMap (''https://'' @ hostOf info @ '':'' @ fmtInt (HttpsPort conf)) = Some tunnel"
  shows "handleHttpsConn conf env TunnelMap =
           [EvSetDeadline RawConn (NowPlusSeconds 20), EvGetHttpsHostname RawConn,
            EvTunnelLookup (''https://'' @ hostOf info @ '':'' @ fmtInt (HttpsPort conf)),
            EvLoadX509KeyPair (TlsCert (Tls conf)) (TlsKey (Tls conf)),
            EvTlsServer (SniffedConn RawConn) (TlsCert (Tls conf)) (TlsKey (Tls conf)),
            EvSetDeadline RawConn NoDeadline,
            EvProxyConn
              (TlsServer (SniffedConn RawConn) (TlsCert (Tls conf)) (TlsKey (Tls conf)))
              (ctl tunnel) (name tunnel),
            EvClose RawConn]"
  using assms by (simp add: handleHttpsConn_def newTlsConfig_def fmtVerb_def Let_def)

lemma handleHttpConn_sniff_failed:
  assumes "GetHttpRequestInfo env = None"
  shows "handleHttpConn conf env TunnelMap =
           [EvSetDeadline RawConn (NowPlusSeconds 20), EvGetHttpRequestInfo RawConn,
            EvLog LDebug ''vhost.GetHttpRequestInfo failed!'', EvClose RawConn]"
  using assms by (simp add: handleHttpConn_def)

lemma handleHttpConn_unmatched:
  assumes "GetHttpRequestInfo env = Some info"
      and "TunnelMap (''http://'' @ hostOf info @ '':'' @ fmtInt (HttpPort conf)) = None"
  shows "handleHttpConn conf env TunnelMap =
           [EvSetDeadline RawConn (NowPlusSeconds 20), EvGetHttpRequestInfo RawConn,
            EvTunnelLookup (''http://'' @ hostOf info @ '':'' @ fmtInt (HttpPort conf)),
            EvWrite (SniffedConn RawConn) (BadGateWayResp env),
            EvClose RawConn]"
  using assms by (simp add: handleHttpConn_def fmtVerb_def Let_def)

lemma handleHttpConn_matched:
  assumes "GetHttpRequestInfo env = Some info"
      and "TunnelMap (''http://'' @ hostOf info @ '':'' @ fmtInt (HttpPort conf)) = Some tunnel"
      and "HttpHostRewrite (tunnelConfig tunnel) = []"
  shows "handleHttpConn conf env TunnelMap =
           [EvSetDeadline RawConn (NowPlusSeconds 20), EvGetHttpRequestInfo RawConn,
            EvTunnelLookup (''http://'' @ hostOf info @ '':'' @ fmtInt (HttpPort conf)),
            EvSetDeadline RawConn NoDeadline,
            EvProxyConn (SniffedConn RawConn) (ctl tunnel) (name tunnel),
            EvClose RawConn]"
  using assms by (simp add: handleHttpConn_def fmtVerb_def Let_def)

lemma handleHttpConn_rewritten:
  assumes "GetHttpRequestInfo env = Some info"
      and "TunnelMap (''http://'' @ hostOf info @ '':'' @ fmtInt (HttpPort conf)) = Some tunnel"
      and "HttpHostRewrite (tunnelConfig tunnel) \<noteq> []"
      and "HttpHostNameRewriteOk env"
  shows "handleHttpConn conf env TunnelMap =
           [EvSetDeadline RawConn (NowPlusSeconds 20), EvGetHttpRequestInfo RawConn,
            EvTunnelLookup (''http://'' @ hostOf info @ '':'' @ fmtInt (HttpPort conf)),
            EvHttpHostNameRewrite (SniffedConn RawConn) (HttpHostRewrite (tunnelConfig tunnel)),
            EvSetDeadline RawConn NoDeadline,
            EvProxyConn
              (HostRewritten (SniffedConn RawConn) (HttpHostRewrite (tunnelConfig tunnel)))
              (ctl tunnel) (name tunnel),
            EvClose RawConn]"
  using assms by (simp add: handleHttpConn_def fmtVerb_def Let_def)

lemma handleHttpConn_rewrite_failed:
  assumes "GetHttpRequestInfo env = Some info"
      and "TunnelMap (''http://'' @ hostOf info @ '':'' @ fmtInt (HttpPort conf)) = Some tunnel"
      and "HttpHostRewrite (tunnelConfig tunnel) \<noteq> []"
      and "\<not> HttpHostNameRewriteOk env"
  shows "handleHttpConn conf env TunnelMap =
           [EvSetDeadline RawConn (NowPlusSeconds 20), EvGetHttpRequestInfo RawConn,
            EvTunnelLookup (''http://'' @ hostOf info @ '':'' @ fmtInt (HttpPort conf)),
            EvHttpHostNameRewrite (SniffedConn RawConn) (HttpHostRewrite (tunnelConfig tunnel)),
            EvLog LError ''vhost.HttpHostNameRewrite failed!'',
            EvClose RawConn]"
  using assms by (simp add: handleHttpConn_def fmtVerb_def Let_def)

lemma https_deadline_cleared_iff:
  "EvSetDeadline RawConn NoDeadline \<in> set (handleHttpsConn conf env TunnelMap) \<longleftrightarrow>
     (\<exists>info. GetHttpsHostname env = Some info \<and>
        TunnelMap (''https://'' @ hostOf info @ '':'' @ fmtInt (HttpsPort conf)) \<noteq> None \<and>
        LoadX509KeyPairOk env (TlsCert (Tls conf)) (TlsKey (Tls conf)))"
proof (cases "GetHttpsHostname env")
  case None
  then show ?thesis
    by (simp add: handleHttpsConn_sniff_failed)
next
  case (Some info)
  show ?thesis
  proof (cases "LoadX509KeyPairOk env (TlsCert (Tls conf)) (TlsKey (Tls conf))")
    case False
    with Some show ?thesis
      by (simp add: handleHttpsConn_cert_failed)
  next
    case True
    show ?thesis
    proof (cases "TunnelMap (''https://'' @ hostOf info @ '':'' @ fmtInt (HttpsPort conf))")
      case None
      with Some True show ?thesis
        by (simp add: handleHttpsConn_unmatched)
    next
      case (Some tunnel)
      with \<open>GetHttpsHostname env = Some info\<close> True show ?thesis
        by (simp add: handleHttpsConn_matched)
    qed
  qed
qed

lemma http_deadline_cleared_iff:
  "EvSetDeadline RawConn NoDeadline \<in> set (handleHttpConn conf env TunnelMap) \<longleftrightarrow>
     (\<exists>info tunnel. GetHttpRequestInfo env = Some info \<and>
        TunnelMap (''http://'' @ hostOf info @ '':'' @ fmtInt (HttpPort conf)) = Some tunnel \<and>
        (HttpHostRewrite (tunnelConfig tunnel) = [] \<or> HttpHostNameRewriteOk env))"
proof (cases "GetHttpRequestInfo env")
  case None
  then show ?thesis
    by (simp add: handleHttpConn_sniff_failed)
next
  case sniffed: (Some info)
  show ?thesis
  proof (cases "TunnelMap (''http://'' @ hostOf info @ '':'' @ fmtInt (HttpPort conf))")
    case None
    with sniffed show ?thesis
      by (simp add: handleHttpConn_unmatched)
  next
    case hit: (Some tunnel)
    show ?thesis
    proof (cases "HttpHostRewrite (tunnelConfig tunnel) = []")
      case True
      with sniffed hit show ?thesis
        by (simp add: handleHttpConn_matched)
    next
      case rewrite: False
      show ?thesis
      proof (cases "HttpHostNameRewriteOk env")
        case True
        with sniffed hit rewrite show ?thesis
          by (simp add: handleHttpConn_rewritten)
      next
        case False
        with sniffed hit rewrite show ?thesis
          by (simp add: handleHttpConn_rewrite_failed)
      qed
    qed
  qed
qed

text \<open>
  C7 as the code has it. Both handlers set a deadline of 20 seconds on the connection
  before they sniff. The deadline is cleared exactly when the sniffed host matches a
  registered tunnel and the step before the proxy succeeds: on HTTPS the server
  certificate loads, on HTTP the Host rewrite succeeds when the tunnel configures one.
  A sniff failure (a timeout is one) closes the connection and writes nothing.
\<close>

theorem sniff_deadline:
  "(\<exists>rest. handleHttpsConn conf env TunnelMap =
      EvSetDeadline RawConn (NowPlusSeconds 20) # EvGetHttpsHostname RawConn # rest) \<and>
   (\<exists>rest. handleHttpConn conf env TunnelMap =
      EvSetDeadline RawConn (NowPlusSeconds 20) # EvGetHttpRequestInfo RawConn # rest) \<and>
   (EvSetDeadline RawConn NoDeadline \<in> set (handleHttpsConn conf env TunnelMap) \<longleftrightarrow>
      (\<exists>info. GetHttpsHostname env = Some info \<and>
         TunnelMap (''https://'' @ hostOf info @ '':'' @ fmtInt (HttpsPort conf)) \<noteq> None \<and>
         LoadX509KeyPairOk env (TlsCert (Tls conf)) (TlsKey (Tls conf)))) \<and>
   (EvSetDeadline RawConn NoDeadline \<in> set (handleHttpConn conf env TunnelMap) \<longleftrightarrow>
      (\<exists>info tunnel. GetHttpRequestInfo env = Some info \<and>
         TunnelMap (''http://'' @ hostOf info @ '':'' @ fmtInt (HttpPort conf)) = Some tunnel \<and>
         (HttpHostRewrite (tunnelConfig tunnel) = [] \<or> HttpHostNameRewriteOk env))) \<and>
   (GetHttpsHostname env = None \<longrightarrow>
      handleHttpsConn conf env TunnelMap =
        [EvSetDeadline RawConn (NowPlusSeconds 20), EvGetHttpsHostname RawConn,
         EvLog LDebug ''vhost.GetHttpRequestInfo failed!'', EvClose RawConn]) \<and>
   (GetHttpRequestInfo env = None \<longrightarrow>
      handleHttpConn conf env TunnelMap =
        [EvSetDeadline RawConn (NowPlusSeconds 20), EvGetHttpRequestInfo RawConn,
         EvLog LDebug ''vhost.GetHttpRequestInfo failed!'', EvClose RawConn])"
proof (intro conjI)
  show "\<exists>rest. handleHttpsConn conf env TunnelMap =
      EvSetDeadline RawConn (NowPlusSeconds 20) # EvGetHttpsHostname RawConn # rest"
    by (simp add: handleHttpsConn_def)
  show "\<exists>rest. handleHttpConn conf env TunnelMap =
      EvSetDeadline RawConn (NowPlusSeconds 20) # EvGetHttpRequestInfo RawConn # rest"
    by (simp add: handleHttpConn_def)
  show "EvSetDeadline RawConn NoDeadline \<in> set (handleHttpsConn conf env TunnelMap) \<longleftrightarrow>
      (\<exists>info. GetHttpsHostname env = Some info \<and>
         TunnelMap (''https://'' @ hostOf info @ '':'' @ fmtInt (HttpsPort conf)) \<noteq> None \<and>
         LoadX509KeyPairOk env (TlsCert (Tls conf)) (TlsKey (Tls conf)))"
    by (rule https_deadline_cleared_iff)
  show "EvSetDeadline RawConn NoDeadline \<in> set (handleHttpConn conf env TunnelMap) \<longleftrightarrow>
      (\<exists>info tunnel. GetHttpRequestInfo env = Some info \<and>
         TunnelMap (''http://'' @ hostOf info @ '':'' @ fmtInt (HttpPort conf)) = Some tunnel \<and>
         (HttpHostRewrite (tunnelConfig tunnel) = [] \<or> HttpHostNameRewriteOk env))"
    by (rule http_deadline_cleared_iff)
qed (simp_all add: handleHttpsConn_sniff_failed handleHttpConn_sniff_failed)

theorem sniff_deadline_witness:
  "handleHttpsConn exampleConf (okEnv None) exampleTunnels =
     [EvSetDeadline RawConn (NowPlusSeconds 20), EvGetHttpsHostname RawConn,
      EvTunnelLookup ''https://a.example.com:443'',
      EvLoadX509KeyPair ''cert.pem'' ''key.pem'',
      EvTlsServer (SniffedConn RawConn) ''cert.pem'' ''key.pem'',
      EvSetDeadline RawConn NoDeadline,
      EvProxyConn (TlsServer (SniffedConn RawConn) ''cert.pem'' ''key.pem'') 2 ''secure'',
      EvClose RawConn] \<and>
   EvSetDeadline RawConn NoDeadline \<in> set (handleHttpsConn exampleConf (okEnv None) exampleTunnels) \<and>
   EvSetDeadline RawConn NoDeadline \<in> set (handleHttpConn exampleConf (okEnv None) exampleTunnels) \<and>
   handleHttpsConn exampleConf ((okEnv None)\<lparr>GetHttpsHostname := None\<rparr>) exampleTunnels =
     [EvSetDeadline RawConn (NowPlusSeconds 20), EvGetHttpsHostname RawConn,
      EvLog LDebug ''vhost.GetHttpRequestInfo failed!'', EvClose RawConn] \<and>
   handleHttpConn exampleConf ((okEnv None)\<lparr>GetHttpRequestInfo := None\<rparr>) exampleTunnels =
     [EvSetDeadline RawConn (NowPlusSeconds 20), EvGetHttpRequestInfo RawConn,
      EvLog LDebug ''vhost.GetHttpRequestInfo failed!'', EvClose RawConn]"
proof -
  note ok = sniff_deadline [of exampleConf "okEnv None" exampleTunnels]
  note nos = sniff_deadline [of exampleConf "(okEnv None)\<lparr>GetHttpsHostname := None\<rparr>" exampleTunnels]
  note nop = sniff_deadline [of exampleConf "(okEnv None)\<lparr>GetHttpRequestInfo := None\<rparr>" exampleTunnels]
  have host: "hostOf [''Host'' \<mapsto> ''a.example.com''] = ''a.example.com''"
    by (simp add: hostOf_def)
  have run: "handleHttpsConn exampleConf (okEnv None) exampleTunnels =
     [EvSetDeadline RawConn (NowPlusSeconds 20), EvGetHttpsHostname RawConn,
      EvTunnelLookup ''https://a.example.com:443'',
      EvLoadX509KeyPair ''cert.pem'' ''key.pem'',
      EvTlsServer (SniffedConn RawConn) ''cert.pem'' ''key.pem'',
      EvSetDeadline RawConn NoDeadline,
      EvProxyConn (TlsServer (SniffedConn RawConn) ''cert.pem'' ''key.pem'') 2 ''secure'',
      EvClose RawConn]"
    by (simp add: handleHttpsConn_def newTlsConfig_def fmtVerb_def Let_def okEnv_def
        exampleConf_def exampleTunnels_def host fmtInt_443 tunnelB_def)
  have https: "EvSetDeadline RawConn NoDeadline \<in>
                 set (handleHttpsConn exampleConf (okEnv None) exampleTunnels)"
    unfolding ok [THEN conjunct2, THEN conjunct2, THEN conjunct1]
    by (simp add: okEnv_def exampleConf_def exampleTunnels_def host fmtInt_443)
  have http: "EvSetDeadline RawConn NoDeadline \<in>
                set (handleHttpConn exampleConf (okEnv None) exampleTunnels)"
    unfolding ok [THEN conjunct2, THEN conjunct2, THEN conjunct2, THEN conjunct1]
    by (simp add: okEnv_def exampleConf_def exampleTunnels_def host fmtInt_80)
  have f1: "handleHttpsConn exampleConf ((okEnv None)\<lparr>GetHttpsHostname := None\<rparr>) exampleTunnels =
     [EvSetDeadline RawConn (NowPlusSeconds 20), EvGetHttpsHostname RawConn,
      EvLog LDebug ''vhost.GetHttpRequestInfo failed!'', EvClose RawConn]"
    using nos by simp
  have f2: "handleHttpConn exampleConf ((okEnv None)\<lparr>GetHttpRequestInfo := None\<rparr>) exampleTunnels =
     [EvSetDeadline RawConn (NowPlusSeconds 20), EvGetHttpRequestInfo RawConn,
      EvLog LDebug ''vhost.GetHttpRequestInfo failed!'', EvClose RawConn]"
    using nop by simp
  show ?thesis
    by (intro conjI) (rule run, rule https, rule http, rule f1, rule f2)
qed

text \<open>
  C7 as stated fails: the host of this HTTP connection matches a registered tunnel, the
  tunnel asks for a Host rewrite, the rewrite fails, and the handler returns without
  clearing the deadline.
\<close>

theorem matched_host_deadline_not_cleared:
  "GetHttpRequestInfo ((okEnv None)\<lparr>HttpHostNameRewriteOk := False\<rparr>) =
     Some [''Host'' \<mapsto> ''a.example.com''] \<and>
   exampleTunnels (''http://'' @ hostOf [''Host'' \<mapsto> ''a.example.com''] @ '':'' @
                   fmtInt (HttpPort exampleConf)) = Some tunnelA \<and>
   handleHttpConn exampleConf ((okEnv None)\<lparr>HttpHostNameRewriteOk := False\<rparr>) exampleTunnels =
     [EvSetDeadline RawConn (NowPlusSeconds 20), EvGetHttpRequestInfo RawConn,
      EvTunnelLookup ''http://a.example.com:80'',
      EvHttpHostNameRewrite (SniffedConn RawConn) ''local.a'',
      EvLog LError ''vhost.HttpHostNameRewrite failed!'',
      EvClose RawConn] \<and>
   EvSetDeadline RawConn NoDeadline \<notin>
     set (handleHttpConn exampleConf ((okEnv None)\<lparr>HttpHostNameRewriteOk := False\<rparr>)
            exampleTunnels)"
  by (simp add: handleHttpConn_def fmtVerb_def Let_def okEnv_def exampleConf_def
      exampleTunnels_def hostOf_def fmtInt_80 tunnelA_def)

text \<open>
  C8 as the code has it. Each handler looks the registry up under the scheme, \<open>://\<close>,
  the sniffed host, a colon and the decimal text of its configured port. When that key
  has no entry, no work stream is requested and the connection is closed; the HTTP
  handler writes the gateway-error text to the sniffed connection, and the HTTPS handler
  writes it, through the TLS server, when the server certificate loads.
\<close>

theorem vhost_lookup_miss:
  "(GetHttpRequestInfo env = Some info \<longrightarrow>
      EvTunnelLookup (''http'' @ ''://'' @ hostOf info @ '':'' @ fmtInt (HttpPort conf))
        \<in> set (handleHttpConn conf env TunnelMap)) \<and>
   (GetHttpsHostname env = Some info' \<longrightarrow>
      EvTunnelLookup (''https'' @ ''://'' @ hostOf info' @ '':'' @ fmtInt (HttpsPort conf))
        \<in> set (handleHttpsConn conf env TunnelMap)) \<and>
   (GetHttpRequestInfo env = Some info \<and>
    TunnelMap (''http'' @ ''://'' @ hostOf info @ '':'' @ fmtInt (HttpPort conf)) = None \<longrightarrow>
      handleHttpConn conf env TunnelMap =
        [EvSetDeadline RawConn (NowPlusSeconds 20), EvGetHttpRequestInfo RawConn,
         EvTunnelLookup (''http://'' @ hostOf info @ '':'' @ fmtInt (HttpPort conf)),
         EvWrite (SniffedConn RawConn) (BadGateWayResp env),
         EvClose RawConn]) \<and>
   (GetHttpsHostname env = Some info' \<and>
    TunnelMap (''https'' @ ''://'' @ hostOf info' @ '':'' @ fmtInt (HttpsPort conf)) = None \<longrightarrow>
      \<not> list_ex isProxyConn (handleHttpsConn conf env TunnelMap) \<and>
      last (handleHttpsConn conf env TunnelMap) = EvClose RawConn \<and>
      (LoadX509KeyPairOk env (TlsCert (Tls conf)) (TlsKey (Tls conf)) \<longrightarrow>
         EvWrite (TlsServer (SniffedConn RawConn) (TlsCert (Tls conf)) (TlsKey (Tls conf)))
           (BadGateWayResp env) \<in> set (handleHttpsConn conf env TunnelMap)))"
proof (intro conjI impI)
  assume "GetHttpRequestInfo env = Some info"
  then show "EvTunnelLookup (''http'' @ ''://'' @ hostOf info @ '':'' @ fmtInt (HttpPort conf))
        \<in> set (handleHttpConn conf env TunnelMap)"
    by (simp add: handleHttpConn_def fmtVerb_def Let_def)
next
  assume "GetHttpsHostname env = Some info'"
  then show "EvTunnelLookup (''https'' @ ''://'' @ hostOf info' @ '':'' @ fmtInt (HttpsPort conf))
        \<in> set (handleHttpsConn conf env TunnelMap)"
    by (simp add: handleHttpsConn_def fmtVerb_def Let_def)
next
  assume "GetHttpRequestInfo env = Some info \<and>
    TunnelMap (''http'' @ ''://'' @ hostOf info @ '':'' @ fmtInt (HttpPort conf)) = None"
  then show "handleHttpConn conf env TunnelMap =
        [EvSetDeadline RawConn (NowPlusSeconds 20), EvGetHttpRequestInfo RawConn,
         EvTunnelLookup (''http://'' @ hostOf info @ '':'' @ fmtInt (HttpPort conf)),
         EvWrite (SniffedConn RawConn) (BadGateWayResp env),
         EvClose RawConn]"
    by (simp add: handleHttpConn_unmatched)
next
  assume miss: "GetHttpsHostname env = Some info' \<and>
    TunnelMap (''https'' @ ''://'' @ hostOf info' @ '':'' @ fmtInt (HttpsPort conf)) = None"
  then have sniffed: "GetHttpsHostname env = Some info'"
    and none: "TunnelMap (''https://'' @ hostOf info' @ '':'' @ fmtInt (HttpsPort conf)) = None"
    by simp_all
  show "\<not> list_ex isProxyConn (handleHttpsConn conf env TunnelMap)"
    using none
    by (cases "LoadX509KeyPairOk env (TlsCert (Tls conf)) (TlsKey (Tls conf))")
       (simp_all add: handleHttpsConn_unmatched [OF sniffed]
          handleHttpsConn_cert_failed [OF sniffed] isProxyConn_def)
  show "last (handleHttpsConn conf env TunnelMap) = EvClose RawConn"
    using none
    by (cases "LoadX509KeyPairOk env (TlsCert (Tls conf)) (TlsKey (Tls conf))")
       (simp_all add: handleHttpsConn_unmatched [OF sniffed]
          handleHttpsConn_cert_failed [OF sniffed])
  assume "LoadX509KeyPairOk env (TlsCert (Tls conf)) (TlsKey (Tls conf))"
  with none
  show "EvWrite (TlsServer (SniffedConn RawConn) (TlsCert (Tls conf)) (TlsKey (Tls conf)))
           (BadGateWayResp env) \<in> set (handleHttpsConn conf env TunnelMap)"
    by (simp add: handleHttpsConn_unmatched [OF sniffed])
qed

theorem vhost_lookup_miss_witness:
  "handleHttpConn exampleConf strayEnv exampleTunnels =
     [EvSetDeadline RawConn (NowPlusSeconds 20), EvGetHttpRequestInfo RawConn,
      EvTunnelLookup ''http://b.example.com:80'',
      EvWrite (SniffedConn RawConn) ''HTTP/1.1 502 Bad Gateway'',
      EvClose RawConn] \<and>
   EvTunnelLookup ''https://b.example.com:443''
     \<in> set (handleHttpsConn exampleConf strayEnv exampleTunnels) \<and>
   EvWrite (TlsServer (SniffedConn RawConn) ''cert.pem'' ''key.pem'') ''HTTP/1.1 502 Bad Gateway''
     \<in> set (handleHttpsConn exampleConf strayEnv exampleTunnels) \<and>
   \<not> list_ex isProxyConn (handleHttpsConn exampleConf strayEnv exampleTunnels) \<and>
   last (handleHttpsConn exampleConf strayEnv exampleTunnels) = EvClose RawConn"
proof -
  let ?info = "[''Host'' \<mapsto> ''b.example.com'']"
  have host: "hostOf ?info = ''b.example.com''"
    by (simp add: hostOf_def)
  have http: "GetHttpRequestInfo strayEnv = Some ?info"
    and https: "GetHttpsHostname strayEnv = Some ?info"
    by (simp_all add: strayEnv_def okEnv_def)
  have port: "HttpPort exampleConf = 80" "HttpsPort exampleConf = 443"
    and cert: "TlsCert (Tls exampleConf) = ''cert.pem''" "TlsKey (Tls exampleConf) = ''key.pem''"
    by (simp_all add: exampleConf_def)
  have miss: "exampleTunnels ''http://b.example.com:80'' = None"
    "exampleTunnels ''https://b.example.com:443'' = None"
    by (simp_all add: exampleTunnels_def)
  have load: "LoadX509KeyPairOk strayEnv ''cert.pem'' ''key.pem''"
    and resp: "BadGateWayResp strayEnv = ''HTTP/1.1 502 Bad Gateway''"
    by (simp_all add: strayEnv_def okEnv_def)
  from vhost_lookup_miss [of strayEnv ?info exampleConf exampleTunnels ?info]
  show ?thesis
    by (simp add: host http https port cert miss load resp fmtInt_80 fmtInt_443)
qed

text \<open>
  C8 as stated fails: the host of this HTTPS connection has no tunnel, the server
  certificate does not load, and the handler closes the connection without writing the
  gateway-error text.
\<close>

theorem https_miss_without_response:
  "GetHttpsHostname (strayEnv\<lparr>LoadX509KeyPairOk := (\<lambda>c k. False)\<rparr>) =
     Some [''Host'' \<mapsto> ''b.example.com''] \<and>
   exampleTunnels (''https://'' @ hostOf [''Host'' \<mapsto> ''b.example.com''] @ '':'' @
                   fmtInt (HttpsPort exampleConf)) = None \<and>
   handleHttpsConn exampleConf (strayEnv\<lparr>LoadX509KeyPairOk := (\<lambda>c k. False)\<rparr>)
       exampleTunnels =
     [EvSetDeadline RawConn (NowPlusSeconds 20), EvGetHttpsHostname RawConn,
      EvTunnelLookup ''https://b.example.com:443'',
      EvLoadX509KeyPair ''cert.pem'' ''key.pem'',
      EvLog LError ''load LoadX509KeyPair failed!'',
      EvLog LError ''server error cert'',
      EvClose RawConn] \<and>
   \<not> list_ex isWrite
       (handleHttpsConn exampleConf (strayEnv\<lparr>LoadX509KeyPairOk := (\<lambda>c k. False)\<rparr>)
          exampleTunnels)"
  by (simp add: handleHttpsConn_def newTlsConfig_def fmtVerb_def Let_def strayEnv_def okEnv_def
      exampleConf_def exampleTunnels_def hostOf_def fmtInt_443 isWrite_def)

text \<open>
  C10. On an HTTPS connection whose sniffed host has no tunnel, when the server
  certificate loads, the handler sets up a TLS server with the configured certificate
  over the sniffed connection and writes the gateway-error text to that TLS stream.
  When the certificate does not load, the handler logs and closes the connection and
  writes nothing, whatever the registry holds.
\<close>

theorem https_gateway_error_inside_tls:
  assumes "GetHttpsHostname env = Some info"
  shows "(LoadX509KeyPairOk env (TlsCert (Tls conf)) (TlsKey (Tls conf)) \<and>
          TunnelMap (''https://'' @ hostOf info @ '':'' @ fmtInt (HttpsPort conf)) = None \<longrightarrow>
            handleHttpsConn conf env TunnelMap =
              [EvSetDeadline RawConn (NowPlusSeconds 20), EvGetHttpsHostname RawConn,
               EvTunnelLookup (''https://'' @ hostOf info @ '':'' @ fmtInt (HttpsPort conf)),
               EvLoadX509KeyPair (TlsCert (Tls conf)) (TlsKey (Tls conf)),
               EvTlsServer (SniffedConn RawConn) (TlsCert (Tls conf)) (TlsKey (Tls conf)),
               EvWrite
                 (TlsServer (SniffedConn RawConn) (TlsCert (Tls conf)) (TlsKey (Tls conf)))
                 (BadGateWayResp env),
               EvClose RawConn]) \<and>
         (\<not> LoadX509KeyPairOk env (TlsCert (Tls conf)) (TlsKey (Tls conf)) \<longrightarrow>
            handleHttpsConn conf env TunnelMap =
              [EvSetDeadline RawConn (NowPlusSeconds 20), EvGetHttpsHostname RawConn,
               EvTunnelLookup (''https://'' @ hostOf info @ '':'' @ fmtInt (HttpsPort conf)),
               EvLoadX509KeyPair (TlsCert (Tls conf)) (TlsKey (Tls conf)),
               EvLog LError ''load LoadX509KeyPair failed!'',
               EvLog LError ''server error cert'',
               EvClose RawConn] \<and>
            \<not> list_ex isWrite (handleHttpsConn conf env TunnelMap) \<and>
            \<not> list_ex isProxyConn (handleHttpsConn conf env TunnelMap))"
  using assms
  by (simp add: handleHttpsConn_unmatched handleHttpsConn_cert_failed isWrite_def
      isProxyConn_def)

theorem https_gateway_error_inside_tls_witness:
  "handleHttpsConn exampleConf strayEnv exampleTunnels =
     [EvSetDeadline RawConn (NowPlusSeconds 20), EvGetHttpsHostname RawConn,
      EvTunnelLookup ''https://b.example.com:443'',
      EvLoadX509KeyPair ''cert.pem'' ''key.pem'',
      EvTlsServer (SniffedConn RawConn) ''cert.pem'' ''key.pem'',
      EvWrite (TlsServer (SniffedConn RawConn) ''cert.pem'' ''key.pem'')
        ''HTTP/1.1 502 Bad Gateway'',
      EvClose RawConn] \<and>
   handleHttpsConn exampleConf ((okEnv None)\<lparr>LoadX509KeyPairOk := (\<lambda>c k. False)\<rparr>)
       exampleTunnels =
     [EvSetDeadline RawConn (NowPlusSeconds 20), EvGetHttpsHostname RawConn,
      EvTunnelLookup ''https://a.example.com:443'',
      EvLoadX509KeyPair ''cert.pem'' ''key.pem'',
      EvLog LError ''load LoadX509KeyPair failed!'',
      EvLog LError ''server error cert'',
      EvClose RawConn]"
proof -
  have stray: "GetHttpsHostname strayEnv = Some [''Host'' \<mapsto> ''b.example.com'']"
    by (simp add: strayEnv_def okEnv_def)
  have known: "GetHttpsHostname ((okEnv None)\<lparr>LoadX509KeyPairOk := (\<lambda>c k. False)\<rparr>) =
                 Some [''Host'' \<mapsto> ''a.example.com'']"
    by (simp add: okEnv_def)
  have a: "handleHttpsConn exampleConf strayEnv exampleTunnels =
     [EvSetDeadline RawConn (NowPlusSeconds 20), EvGetHttpsHostname RawConn,
      EvTunnelLookup ''https://b.example.com:443'',
      EvLoadX509KeyPair ''cert.pem'' ''key.pem'',
      EvTlsServer (SniffedConn RawConn) ''cert.pem'' ''key.pem'',
      EvWrite (TlsServer (SniffedConn RawConn) ''cert.pem'' ''key.pem'')
        ''HTTP/1.1 502 Bad Gateway'',
      EvClose RawConn]"
    using https_gateway_error_inside_tls [OF stray, of exampleConf exampleTunnels]
    by (simp add: strayEnv_def okEnv_def exampleConf_def exampleTunnels_def hostOf_def
        fmtInt_443)
  have b: "handleHttpsConn exampleConf ((okEnv None)\<lparr>LoadX509KeyPairOk := (\<lambda>c k. False)\<rparr>)
       exampleTunnels =
     [EvSetDeadline RawConn (NowPlusSeconds 20), EvGetHttpsHostname RawConn,
      EvTunnelLookup ''https://a.example.com:443'',
      EvLoadX509KeyPair ''cert.pem'' ''key.pem'',
      EvLog LError ''load LoadX509KeyPair failed!'',
      EvLog LError ''server error cert'',
      EvClose RawConn]"
    using https_gateway_error_inside_tls [OF known, of exampleConf exampleTunnels]
    by (simp add: exampleConf_def hostOf_def fmtInt_443)
  show ?thesis
    by (rule conjI [OF a b])
qed

subsection \<open>Startup\<close>

lemma parseDigits_None_iff:
  "parseDigits acc s = None \<longleftrightarrow> (\<exists>c \<in> set s. \<not> isDigit c)"
  by (induction s arbitrary: acc) auto

lemma ParseUint_Some_digits:
  assumes "ParseUint s = Some n"
  shows "s \<noteq> [] \<and> (\<forall>c \<in> set s. isDigit c) \<and> n < 2 ^ 64"
proof -
  from assms have ne: "s \<noteq> []"
    by (auto simp: ParseUint_def)
  with assms obtain m where m: "parseDigits 0 s = Some m"
    by (auto simp: ParseUint_def split: option.splits)
  with assms ne have "n < 2 ^ 64"
    by (auto simp: ParseUint_def split: if_splits)
  moreover from m have "\<forall>c \<in> set s. isDigit c"
    using parseDigits_None_iff [of 0 s] by auto
  ultimately show ?thesis
    using ne by blast
qed

text \<open>
  C9. With the configuration loaded, startup ends in a fatal error whenever
  \<^verbatim>\<open>strconv.ParseUint\<close> rejects MaxIdlePipes or MaxStreams; and these are the only checks
  of numeric limits: once the log file is open, startup is fatal exactly when one of the
  two does not parse, and otherwise it starts the five tasks with the two parsed values,
  whatever they are.
\<close>

theorem startup_numeric_limits:
  assumes "LoadConfig env = Some conf"
  shows "(ParseUint (MaxIdlePipes conf) = None \<or> ParseUint (MaxStreams conf) = None \<longrightarrow>
            isFatal (Main_server env)) \<and>
         (LogFile conf = [] \<or> OpenFileOk env (LogFile conf) \<longrightarrow>
            (isFatal (Main_server env) \<longleftrightarrow>
               ParseUint (MaxIdlePipes conf) = None \<or> ParseUint (MaxStreams conf) = None)) \<and>
         (\<forall>a b. (LogFile conf = [] \<or> OpenFileOk env (LogFile conf)) \<and>
                ParseUint (MaxIdlePipes conf) = Some a \<and>
                ParseUint (MaxStreams conf) = Some b \<longrightarrow>
                (\<exists>tasks. Main_server env = Serving a b tasks \<and> length tasks = 5))"
  using assms
  by (auto simp: Main_server_def Fatalln_def Fatalf_def isFatal_def split: option.splits)

theorem startup_numeric_limits_witness:
  "isFatal (Main_server (exampleMain ''many'' ''6'')) \<and>
   isFatal (Main_server (exampleMain ''4'' ''-1'')) \<and>
   \<not> isFatal (Main_server (exampleMain ''0'' ''6'')) \<and>
   (\<exists>tasks. Main_server (exampleMain ''0'' ''6'') = Serving 0 6 tasks \<and> length tasks = 5)"
proof -
  have cfg: "LoadConfig (exampleMain p s) =
               Some (exampleConf\<lparr>MaxIdlePipes := p, MaxStreams := s\<rparr>)" for p s
    by (simp add: exampleMain_def)
  have p4: "ParseUint ''4'' = Some 4" and p6: "ParseUint ''6'' = Some 6"
    and p0: "ParseUint ''0'' = Some 0"
    and bad1: "ParseUint ''many'' = None" and bad2: "ParseUint ''-1'' = None"
    by (simp_all add: ParseUint_def isDigit_def)
  have log: "LogFile (exampleConf\<lparr>MaxIdlePipes := p, MaxStreams := s\<rparr>) = []" for p s
    by (simp add: exampleConf_def)
  have a: "isFatal (Main_server (exampleMain ''many'' ''6''))"
    using startup_numeric_limits [OF cfg [of "''many''" "''6''"]] bad1 by simp
  have b: "isFatal (Main_server (exampleMain ''4'' ''-1''))"
    using startup_numeric_limits [OF cfg [of "''4''" "''-1''"]] bad2 by simp
  have c: "\<not> isFatal (Main_server (exampleMain ''0'' ''6''))"
    using startup_numeric_limits [OF cfg [of "''0''" "''6''"]] p0 p6 log by simp
  have d: "\<exists>tasks. Main_server (exampleMain ''0'' ''6'') = Serving 0 6 tasks \<and> length tasks = 5"
    using startup_numeric_limits [OF cfg [of "''0''" "''6''"]] p0 p6 log by simp
  show ?thesis
    by (intro conjI) (rule a, rule b, rule c, rule d)
qed

end
